theory Spec2Isabelle
  imports Main
begin

section \<open>The severity levels\<close>

text \<open>
  \<^verbatim>\<open>enum class LogLevel { Info, Debug, Trace, };\<close>
  The same declaration stands in both headers of the repository. An enum class without
  initialisers numbers its enumerators 0, 1, 2 in declaration order, and the built-in
  relational operators of C++ compare these underlying values.
\<close>

datatype LogLevel = Info | Debug | Trace

fun underlying :: "LogLevel \<Rightarrow> int" where
  "underlying Info = 0"
| "underlying Debug = 1"
| "underlying Trace = 2"

instantiation LogLevel :: linorder
begin

definition less_eq_LogLevel :: "LogLevel \<Rightarrow> LogLevel \<Rightarrow> bool" where
  "less_eq_LogLevel a b \<longleftrightarrow> underlying a \<le> underlying b"

definition less_LogLevel :: "LogLevel \<Rightarrow> LogLevel \<Rightarrow> bool" where
  "less_LogLevel a b \<longleftrightarrow> underlying a < underlying b"

instance
proof
  fix x y z :: LogLevel
  show "x < y \<longleftrightarrow> x \<le> y \<and> \<not> y \<le> x"
    by (auto simp: less_eq_LogLevel_def less_LogLevel_def)
  show "x \<le> x"
    by (simp add: less_eq_LogLevel_def)
  show "x \<le> y \<Longrightarrow> y \<le> z \<Longrightarrow> x \<le> z"
    by (simp add: less_eq_LogLevel_def)
  show "x \<le> y \<Longrightarrow> y \<le> x \<Longrightarrow> x = y"
    by (cases x; cases y) (simp_all add: less_eq_LogLevel_def)
  show "x \<le> y \<or> y \<le> x"
    by (auto simp: less_eq_LogLevel_def)
qed

end

section \<open>The abstract interface\<close>

text \<open>
  A member function runs on the state of the program outside the interface (the fields
  of the implementer, its streams), of type \<open>'w\<close>. It returns normally (\<open>Inr\<close>) or
  leaves by an exception of type \<open>'e\<close> (\<open>Inl\<close>), and in both cases hands back the state
  it reached. The class has four virtual member functions; an object is known to its
  callers by the table of these four. (The header under \<^verbatim>\<open>include/SimpleLogger\<close>
  declares the same class without \<open>is_active\<close>, and stops there.)
\<close>

record ('w, 'e) SimpleLogger =
  get_log_level :: "'w \<Rightarrow> ('e + LogLevel) \<times> 'w"
  set_log_level :: "LogLevel \<Rightarrow> 'w \<Rightarrow> ('e + unit) \<times> 'w"
  log :: "LogLevel \<Rightarrow> string \<Rightarrow> 'w \<Rightarrow> ('e + unit) \<times> 'w"
  is_active :: "'w \<Rightarrow> ('e + bool) \<times> 'w"

text \<open>
  The three convenience member functions are not virtual: they are functions of the
  object, outside its table, and each makes one virtual call of \<open>log\<close>.
  \<^verbatim>\<open>void info(std::string_view message) { log(LogLevel::Info, message); }\<close>
\<close>

definition info :: "('w, 'e) SimpleLogger \<Rightarrow> string \<Rightarrow> 'w \<Rightarrow> ('e + unit) \<times> 'w" where
  "info this message = log this Info message"

definition debug :: "('w, 'e) SimpleLogger \<Rightarrow> string \<Rightarrow> 'w \<Rightarrow> ('e + unit) \<times> 'w" where
  "debug this message = log this Debug message"

definition trace :: "('w, 'e) SimpleLogger \<Rightarrow> string \<Rightarrow> 'w \<Rightarrow> ('e + unit) \<times> 'w" where
  "trace this message = log this Trace message"

text \<open>
  \<^verbatim>\<open>virtual bool is_active() const { return true; }\<close>
  The body the base class gives to \<open>is_active\<close>.
\<close>

definition SimpleLogger_is_active :: "'w \<Rightarrow> ('e + bool) \<times> 'w" where
  "SimpleLogger_is_active w = (Inr True, w)"

text \<open>
  A class derived from \<open>SimpleLogger\<close> has to override the three pure virtual functions
  and may override \<open>is_active\<close>; where it does not, the slot holds the body of the base
  class.
\<close>

definition derived ::
  "('w \<Rightarrow> ('e + LogLevel) \<times> 'w) \<Rightarrow> (LogLevel \<Rightarrow> 'w \<Rightarrow> ('e + unit) \<times> 'w) \<Rightarrow>
   (LogLevel \<Rightarrow> string \<Rightarrow> 'w \<Rightarrow> ('e + unit) \<times> 'w) \<Rightarrow> ('w \<Rightarrow> ('e + bool) \<times> 'w) option \<Rightarrow>
   ('w, 'e) SimpleLogger" where
  "derived get_override set_override log_override is_active_override =
     \<lparr> get_log_level = get_override,
       set_log_level = set_override,
       log = log_override,
       is_active = (case is_active_override of
                      None \<Rightarrow> SimpleLogger_is_active
                    | Some body \<Rightarrow> body) \<rparr>"

section \<open>NullLogger\<close>

text \<open>
  \<^verbatim>\<open>
  class NullLogger : public SimpleLogger {
      virtual LogLevel get_log_level() const override { return LogLevel::Info; }
      virtual void set_log_level(LogLevel level) override {}
      void log(LogLevel level, std::string_view message) override {}
      bool is_active() const override { return false; }
  };
  \<close>
  The class has no data member.
\<close>

definition NullLogger_get_log_level :: "'w \<Rightarrow> ('e + LogLevel) \<times> 'w" where
  "NullLogger_get_log_level w = (Inr Info, w)"

definition NullLogger_set_log_level :: "LogLevel \<Rightarrow> 'w \<Rightarrow> ('e + unit) \<times> 'w" where
  "NullLogger_set_log_level level w = (Inr (), w)"

definition NullLogger_log :: "LogLevel \<Rightarrow> string \<Rightarrow> 'w \<Rightarrow> ('e + unit) \<times> 'w" where
  "NullLogger_log level message w = (Inr (), w)"

definition NullLogger_is_active :: "'w \<Rightarrow> ('e + bool) \<times> 'w" where
  "NullLogger_is_active w = (Inr False, w)"

definition NullLogger :: "('w, 'e) SimpleLogger" where
  "NullLogger =
     derived NullLogger_get_log_level NullLogger_set_log_level NullLogger_log
       (Some NullLogger_is_active)"

section \<open>Pointers, the shared instance and normalize\<close>

text \<open>
  A \<^verbatim>\<open>SimpleLogger*\<close> is the null pointer (\<open>None\<close>) or points to an object: the
  function-local static \<^verbatim>\<open>instance\<close> of \<open>null_logger\<close>, or an object of the
  application, named by its address.
\<close>

datatype object = Instance | Allocated nat

type_synonym pointer = "object option"

text \<open>
  \<^verbatim>\<open>static NullLogger instance;\<close> is constructed when control first passes
  through its declaration; the flag records whether that has happened.
\<close>

record statics =
  instance_constructed :: bool

definition null_logger :: "statics \<Rightarrow> pointer \<times> statics" where
  "null_logger st = (Some Instance, st\<lparr>instance_constructed := True\<rparr>)"

text \<open>
  \<^verbatim>\<open>return logger ? logger : null_logger();\<close>
\<close>

definition normalize :: "pointer \<Rightarrow> statics \<Rightarrow> pointer \<times> statics" where
  "normalize logger st = (if logger \<noteq> None then (logger, st) else null_logger st)"

text \<open>
  A virtual call through a pointer finds the table of the object pointed to. The
  application's objects are given by \<open>heap\<close>. The null pointer, an address with no object and
  the static before its construction have no table (\<open>None\<close>): a call through them is
  undefined.
\<close>

fun dispatch ::
  "(nat \<Rightarrow> ('w, 'e) SimpleLogger option) \<Rightarrow> statics \<Rightarrow> pointer \<Rightarrow> ('w, 'e) SimpleLogger option" where
  "dispatch heap st None = None"
| "dispatch heap st (Some Instance) = (if instance_constructed st then Some NullLogger else None)"
| "dispatch heap st (Some (Allocated a)) = heap a"

section \<open>Callers\<close>

text \<open>
  A caller makes a sequence of calls on one logger. Each call is one of the seven public
  member functions with its arguments; a sequence stops at the first exception, as the
  caller's block would.
\<close>

datatype operation =
  Get_log_level
| Set_log_level LogLevel
| Log LogLevel string
| Info_call string
| Debug_call string
| Trace_call string
| Is_active

datatype returned = Level LogLevel | Void | Bool bool

definition returning :: "('a \<Rightarrow> returned) \<Rightarrow> ('e + 'a) \<times> 'w \<Rightarrow> ('e + returned) \<times> 'w" where
  "returning wrap r = (case r of (Inl e, w) \<Rightarrow> (Inl e, w) | (Inr x, w) \<Rightarrow> (Inr (wrap x), w))"

fun call :: "('w, 'e) SimpleLogger \<Rightarrow> operation \<Rightarrow> 'w \<Rightarrow> ('e + returned) \<times> 'w" where
  "call this Get_log_level w = returning Level (get_log_level this w)"
| "call this (Set_log_level level) w = returning (\<lambda>_. Void) (set_log_level this level w)"
| "call this (Log level message) w = returning (\<lambda>_. Void) (log this level message w)"
| "call this (Info_call message) w = returning (\<lambda>_. Void) (info this message w)"
| "call this (Debug_call message) w = returning (\<lambda>_. Void) (debug this message w)"
| "call this (Trace_call message) w = returning (\<lambda>_. Void) (trace this message w)"
| "call this Is_active w = returning Bool (is_active this w)"

fun run :: "('w, 'e) SimpleLogger \<Rightarrow> operation list \<Rightarrow> 'w \<Rightarrow> ('e + returned list) \<times> 'w" where
  "run this [] w = (Inr [], w)"
| "run this (c # cs) w =
     (case call this c w of
        (Inl e, w') \<Rightarrow> (Inl e, w')
      | (Inr r, w') \<Rightarrow>
          (case run this cs w' of
             (Inl e, w'') \<Rightarrow> (Inl e, w'')
           | (Inr rs, w'') \<Rightarrow> (Inr (r # rs), w'')))"

text \<open>
  The same sequence with every convenience call written out as the call of \<open>log\<close>
  that its body makes.
\<close>

fun as_log :: "operation \<Rightarrow> operation" where
  "as_log (Info_call message) = Log Info message"
| "as_log (Debug_call message) = Log Debug message"
| "as_log (Trace_call message) = Log Trace message"
| "as_log c = c"

section \<open>A level-filtering implementer\<close>

text \<open>
  README.md shows what an application's implementer looks like. Its \<open>ConsoleLogger\<close>
  keeps the threshold in a field,
  \<^verbatim>\<open>
  LogLevel current_level = LogLevel::Info;
  LogLevel get_log_level() const override { return current_level; }
  void set_log_level(LogLevel level) override { current_level = level; }
  \<close>
  and its "Level-based filtering (traditional)" writes the message as one line:
  \<^verbatim>\<open>
  void log(LogLevel level, std::string_view message) override {
      if (level >= current_level) {
          output_stream << message << std::endl;
      }
  }
  \<close>
  The state of such an implementer is the field and the lines written so far. The test
  of \<open>log\<close> is a parameter \<open>passes\<close>, applied to the level of the message and the
  threshold; README.md's test is \<open>level \<ge> current_level\<close>.
\<close>

record filtering =
  current_level :: LogLevel
  output_stream :: "string list"

definition filtering_get_log_level :: "filtering \<Rightarrow> ('e + LogLevel) \<times> filtering" where
  "filtering_get_log_level w = (Inr (current_level w), w)"

definition filtering_set_log_level :: "LogLevel \<Rightarrow> filtering \<Rightarrow> ('e + unit) \<times> filtering" where
  "filtering_set_log_level level w = (Inr (), w\<lparr>current_level := level\<rparr>)"

definition filtering_log ::
  "(LogLevel \<Rightarrow> LogLevel \<Rightarrow> bool) \<Rightarrow> LogLevel \<Rightarrow> string \<Rightarrow> filtering \<Rightarrow> ('e + unit) \<times> filtering" where
  "filtering_log passes level message w =
     (if passes level (current_level w)
      then (Inr (), w\<lparr>output_stream := output_stream w @ [message]\<rparr>)
      else (Inr (), w))"

definition FilteringLogger :: "(LogLevel \<Rightarrow> LogLevel \<Rightarrow> bool) \<Rightarrow> (filtering, 'e) SimpleLogger" where
  "FilteringLogger passes =
     derived filtering_get_log_level filtering_set_log_level (filtering_log passes) None"

definition TraditionalLogger :: "(filtering, 'e) SimpleLogger" where
  "TraditionalLogger = FilteringLogger (\<lambda>level current_level. level \<ge> current_level)"

text \<open>
  What it means for any implementer to filter by a threshold with the test \<open>passes\<close>,
  its output being read off the state by \<open>observed\<close>: \<open>get_log_level\<close> returns the
  threshold and changes nothing; \<open>set_log_level\<close> makes its argument the threshold and
  writes nothing; \<open>log\<close> keeps the threshold and appends the message to the output exactly
  when the test holds of the message's level and the threshold.
\<close>

definition filters_by ::
  "(LogLevel \<Rightarrow> LogLevel \<Rightarrow> bool) \<Rightarrow> ('w, 'e) SimpleLogger \<Rightarrow> ('w \<Rightarrow> string list) \<Rightarrow> bool" where
  "filters_by passes this observed \<longleftrightarrow>
     (\<forall>w. \<exists>current. get_log_level this w = (Inr current, w)) \<and>
     (\<forall>level w. \<exists>w'. set_log_level this level w = (Inr (), w') \<and>
        get_log_level this w' = (Inr level, w') \<and> observed w' = observed w) \<and>
     (\<forall>level message w current. get_log_level this w = (Inr current, w) \<longrightarrow>
        (\<exists>w'. log this level message w = (Inr (), w') \<and>
           get_log_level this w' = (Inr current, w') \<and>
           observed w' = (if passes level current then observed w @ [message] else observed w)))"

section \<open>The level order\<close>

text \<open>
  C8. \<open>LogLevel\<close> has exactly the three values \<open>Info\<close>, \<open>Debug\<close> and \<open>Trace\<close>, pairwise
  different, and the comparison of the language orders them totally in declaration order:
  \<open>Info < Debug < Trace\<close>.
\<close>

theorem LogLevel_three_ordered:
  "(UNIV :: LogLevel set) = {Info, Debug, Trace}
   \<and> card (UNIV :: LogLevel set) = 3
   \<and> distinct [Info, Debug, Trace]
   \<and> Info < Debug \<and> Debug < Trace \<and> Info < Trace
   \<and> \<not> Debug < Info \<and> \<not> Trace < Debug \<and> \<not> Trace < Info
   \<and> ((a::LogLevel) < b \<or> a = b \<or> b < a)
   \<and> ((a \<le> b) = (underlying a \<le> underlying b))
   \<and> ((a < b) = (underlying a < underlying b))"
proof -
  have univ: "(UNIV :: LogLevel set) = {Info, Debug, Trace}"
  proof
    show "(UNIV :: LogLevel set) \<subseteq> {Info, Debug, Trace}"
    proof
      fix x :: LogLevel
      show "x \<in> {Info, Debug, Trace}" by (cases x) simp_all
    qed
  qed simp
  have "card {Info, Debug, Trace} = 3" by simp
  with univ have card3: "card (UNIV :: LogLevel set) = 3" by simp
  have order: "Info < Debug" "Debug < Trace" "Info < Trace"
    "\<not> Debug < Info" "\<not> Trace < Debug" "\<not> Trace < Info"
    by (simp_all add: less_LogLevel_def)
  have total: "a < b \<or> a = b \<or> b < a" by (rule less_linear)
  show ?thesis
    using univ card3 order total
    by (simp add: less_eq_LogLevel_def less_LogLevel_def)
qed

section \<open>Filtering by a threshold\<close>

lemma FilteringLogger_slots:
  "get_log_level (FilteringLogger passes) = filtering_get_log_level"
  "set_log_level (FilteringLogger passes) = filtering_set_log_level"
  "log (FilteringLogger passes) = filtering_log passes"
  by (simp_all add: FilteringLogger_def derived_def)

lemma FilteringLogger_filters_by: "filters_by passes (FilteringLogger passes) output_stream"
  unfolding filters_by_def FilteringLogger_slots
  by (simp add: filtering_get_log_level_def filtering_set_log_level_def filtering_log_def)

lemma filters_by_set:
  assumes f: "filters_by passes this observed"
  shows "\<exists>w'. call this (Set_log_level level) w = (Inr Void, w') \<and>
           get_log_level this w' = (Inr level, w') \<and> observed w' = observed w"
proof -
  from f obtain w' where "set_log_level this level w = (Inr (), w')"
    "get_log_level this w' = (Inr level, w')" "observed w' = observed w"
    unfolding filters_by_def by blast
  then show ?thesis by (simp add: returning_def)
qed

lemma filters_by_log:
  assumes f: "filters_by passes this observed"
    and g: "get_log_level this w = (Inr current, w)"
  shows "\<exists>w'. call this (Log level message) w = (Inr Void, w') \<and>
           get_log_level this w' = (Inr current, w') \<and>
           observed w' = (if passes level current then observed w @ [message] else observed w)"
proof -
  from f g obtain w' where "log this level message w = (Inr (), w')"
    "get_log_level this w' = (Inr current, w')"
    "observed w' = (if passes level current then observed w @ [message] else observed w)"
    unfolding filters_by_def by blast
  then show ?thesis by (simp add: returning_def)
qed

text \<open>
  C1, as amended. For an implementer whose \<open>log(level, m)\<close> produces output exactly
  when \<open>level \<le> current_level\<close>: after \<open>set_log_level(Debug)\<close>, the calls
  \<open>log(Info, "a")\<close>, \<open>log(Debug, "b")\<close>, \<open>log(Trace, "c")\<close> all return and add to the
  output exactly \<open>"a"\<close> and \<open>"b"\<close>, in that order, and not \<open>"c"\<close>. Under the declared
  order the threshold \<open>Debug\<close> takes in \<open>Info\<close> and \<open>Debug\<close> and leaves out \<open>Trace\<close>.
\<close>

theorem threshold_Debug_includes_Info_and_Debug:
  assumes f: "filters_by (\<lambda>level current_level. level \<le> current_level) this observed"
  shows "(\<exists>w'. run this [Set_log_level Debug, Log Info ''a'', Log Debug ''b'', Log Trace ''c''] w
                = (Inr [Void, Void, Void, Void], w')
              \<and> observed w' = observed w @ [''a'', ''b''])
         \<and> Info \<le> Debug \<and> Debug \<le> Debug \<and> \<not> Trace \<le> Debug"
proof -
  obtain w1 where s1: "call this (Set_log_level Debug) w = (Inr Void, w1)"
    and g1: "get_log_level this w1 = (Inr Debug, w1)" and o1: "observed w1 = observed w"
    using filters_by_set [OF f] by blast
  obtain w2 where s2: "call this (Log Info ''a'') w1 = (Inr Void, w2)"
    and g2: "get_log_level this w2 = (Inr Debug, w2)"
    and o2: "observed w2 = observed w1 @ [''a'']"
    using filters_by_log [OF f g1, of Info "''a''"] by (auto simp: less_eq_LogLevel_def)
  obtain w3 where s3: "call this (Log Debug ''b'') w2 = (Inr Void, w3)"
    and g3: "get_log_level this w3 = (Inr Debug, w3)"
    and o3: "observed w3 = observed w2 @ [''b'']"
    using filters_by_log [OF f g2, of Debug "''b''"] by (auto simp: less_eq_LogLevel_def)
  obtain w4 where s4: "call this (Log Trace ''c'') w3 = (Inr Void, w4)"
    and o4: "observed w4 = observed w3"
    using filters_by_log [OF f g3, of Trace "''c''"] by (auto simp: less_eq_LogLevel_def)
  have "run this [Set_log_level Debug, Log Info ''a'', Log Debug ''b'', Log Trace ''c''] w
          = (Inr [Void, Void, Void, Void], w4)"
    using s1 s2 s3 s4 by (simp del: call.simps)
  moreover have "observed w4 = observed w @ [''a'', ''b'']"
    using o1 o2 o3 o4 by simp
  moreover have "Info \<le> Debug \<and> Debug \<le> Debug \<and> \<not> Trace \<le> Debug"
    by (simp add: less_eq_LogLevel_def)
  ultimately show ?thesis by blast
qed

text \<open>
  The hypothesis holds of the implementer of README.md with the test turned round, and
  there the output is \<open>"a"\<close>, \<open>"b"\<close>.
\<close>

theorem threshold_Debug_witness:
  "filters_by (\<lambda>level current_level. level \<le> current_level)
     (FilteringLogger (\<lambda>level current_level. level \<le> current_level)
        :: (filtering, unit) SimpleLogger) output_stream
   \<and> run (FilteringLogger (\<lambda>level current_level. level \<le> current_level)
        :: (filtering, unit) SimpleLogger)
        [Set_log_level Debug, Log Info ''a'', Log Debug ''b'', Log Trace ''c'']
        \<lparr>current_level = Info, output_stream = []\<rparr>
      = (Inr [Void, Void, Void, Void],
         \<lparr>current_level = Debug, output_stream = [''a'', ''b'']\<rparr>)"
proof -
  have h: "filters_by (\<lambda>level current_level. level \<le> current_level)
     (FilteringLogger (\<lambda>level current_level. level \<le> current_level)
        :: (filtering, unit) SimpleLogger) output_stream"
    by (rule FilteringLogger_filters_by)
  have r: "run (FilteringLogger (\<lambda>level current_level. level \<le> current_level)
        :: (filtering, unit) SimpleLogger)
        [Set_log_level Debug, Log Info ''a'', Log Debug ''b'', Log Trace ''c'']
        \<lparr>current_level = Info, output_stream = []\<rparr>
      = (Inr [Void, Void, Void, Void],
         \<lparr>current_level = Debug, output_stream = [''a'', ''b'']\<rparr>)"
    by (simp add: FilteringLogger_slots returning_def filtering_set_log_level_def
        filtering_log_def less_eq_LogLevel_def)
  from threshold_Debug_includes_Info_and_Debug
    [OF h, of "\<lparr>current_level = Info, output_stream = []\<rparr>"] r
  have "output_stream \<lparr>current_level = Debug, output_stream = [''a'', ''b'']\<rparr>
          = [] @ [''a'', ''b'']"
    by simp
  with h r show ?thesis by simp
qed

text \<open>
  C1, as the claim states it, fails. The implementer of README.md filters by
  \<open>level \<ge> current_level\<close>; with the threshold \<open>Debug\<close> the three calls write \<open>"b"\<close>
  and \<open>"c"\<close>, not \<open>"a"\<close> and \<open>"b"\<close>.
\<close>

theorem threshold_at_least_counterexample:
  "filters_by (\<lambda>level current_level. level \<ge> current_level)
     (TraditionalLogger :: (filtering, unit) SimpleLogger) output_stream
   \<and> run (TraditionalLogger :: (filtering, unit) SimpleLogger)
        [Set_log_level Debug, Log Info ''a'', Log Debug ''b'', Log Trace ''c'']
        \<lparr>current_level = Info, output_stream = []\<rparr>
      = (Inr [Void, Void, Void, Void],
         \<lparr>current_level = Debug, output_stream = [''b'', ''c'']\<rparr>)
   \<and> [''b'', ''c''] \<noteq> [''a'', ''b'']
   \<and> \<not> Info \<ge> Debug \<and> Trace \<ge> Debug"
proof -
  have "filters_by (\<lambda>level current_level. level \<ge> current_level)
     (TraditionalLogger :: (filtering, unit) SimpleLogger) output_stream"
    unfolding TraditionalLogger_def by (rule FilteringLogger_filters_by)
  moreover have "run (TraditionalLogger :: (filtering, unit) SimpleLogger)
        [Set_log_level Debug, Log Info ''a'', Log Debug ''b'', Log Trace ''c'']
        \<lparr>current_level = Info, output_stream = []\<rparr>
      = (Inr [Void, Void, Void, Void],
         \<lparr>current_level = Debug, output_stream = [''b'', ''c'']\<rparr>)"
    by (simp add: TraditionalLogger_def FilteringLogger_slots returning_def
        filtering_set_log_level_def filtering_log_def less_eq_LogLevel_def)
  ultimately show ?thesis by (simp add: less_eq_LogLevel_def)
qed

section \<open>Facts about NullLogger\<close>

lemma NullLogger_slots:
  "get_log_level NullLogger = NullLogger_get_log_level"
  "set_log_level NullLogger = NullLogger_set_log_level"
  "log NullLogger = NullLogger_log"
  "is_active NullLogger = NullLogger_is_active"
  by (simp_all add: NullLogger_def derived_def)

lemma call_NullLogger:
  "call NullLogger c w =
     (Inr (case c of Get_log_level \<Rightarrow> Level Info | Is_active \<Rightarrow> Bool False | _ \<Rightarrow> Void), w)"
  by (cases c)
    (simp_all add: NullLogger_slots returning_def info_def debug_def trace_def
      NullLogger_get_log_level_def NullLogger_set_log_level_def NullLogger_log_def
      NullLogger_is_active_def)

lemma run_NullLogger:
  "run NullLogger cs w =
     (Inr (map (\<lambda>c. case c of Get_log_level \<Rightarrow> Level Info | Is_active \<Rightarrow> Bool False | _ \<Rightarrow> Void) cs),
      w)"
  by (induction cs) (simp_all add: call_NullLogger)

section \<open>Forwarding of the convenience functions\<close>

lemma call_as_log: "call this (as_log c) w = call this c w"
  by (cases c) (simp_all add: info_def debug_def trace_def)

lemma run_as_log: "run this (map as_log cs) w = run this cs w"
proof (induction cs arbitrary: w)
  case Nil
  show ?case by simp
next
  case (Cons c cs)
  show ?case
    by (simp add: call_as_log Cons.IH del: call.simps
        cong: prod.case_cong sum.case_cong)
qed

text \<open>
  C2. For every object of the interface and every message, \<open>info\<close> is the call
  \<open>log(Info, message)\<close>, \<open>debug\<close> is \<open>log(Debug, message)\<close> and \<open>trace\<close> is
  \<open>log(Trace, message)\<close>: the same result or exception and the same state. A caller sees
  no difference between the two calls, alone or anywhere in a sequence of calls, and in a
  derived class the three functions are fixed by its override of \<open>log\<close> alone.
\<close>

theorem convenience_forwarding:
  "info this message w = log this Info message w
   \<and> debug this message w = log this Debug message w
   \<and> trace this message w = log this Trace message w
   \<and> call this (Info_call message) w = call this (Log Info message) w
   \<and> call this (Debug_call message) w = call this (Log Debug message) w
   \<and> call this (Trace_call message) w = call this (Log Trace message) w
   \<and> run this (map as_log cs) w = run this cs w
   \<and> info (derived get_override set_override log_override active_override) message w
       = log_override Info message w
   \<and> debug (derived get_override set_override log_override active_override) message w
       = log_override Debug message w
   \<and> trace (derived get_override set_override log_override active_override) message w
       = log_override Trace message w"
  by (simp add: info_def debug_def trace_def derived_def run_as_log)

section \<open>normalize and the shared instance\<close>

text \<open>
  C3. \<open>normalize\<close> returns for every pointer, null or not, and never returns the null
  pointer. For the null pointer it returns what \<open>null_logger\<close> returns, the static
  instance, which is constructed by then and is a \<open>NullLogger\<close>: its \<open>is_active\<close>
  returns false, and its \<open>log\<close>, called directly or through \<open>info\<close>, \<open>debug\<close> and
  \<open>trace\<close>, returns normally and leaves the state as it was, for every level and message.
\<close>

theorem normalize_never_null:
  "fst (normalize logger st) \<noteq> None
   \<and> normalize None st = null_logger st
   \<and> fst (normalize None st) = Some Instance
   \<and> dispatch heap (snd (normalize None st)) (fst (normalize None st)) = Some NullLogger
   \<and> is_active NullLogger w = (Inr False, w)
   \<and> log NullLogger level message w = (Inr (), w)
   \<and> info NullLogger message w = (Inr (), w)
   \<and> debug NullLogger message w = (Inr (), w)
   \<and> trace NullLogger message w = (Inr (), w)"
  by (simp add: normalize_def null_logger_def NullLogger_slots NullLogger_is_active_def
      NullLogger_log_def info_def debug_def trace_def)

text \<open>
  C4. For a pointer to an object, \<open>normalize\<close> returns that same pointer, and it does
  not touch the static.
\<close>

theorem normalize_present_identity:
  "fst (normalize (Some x) st) = Some x \<and> snd (normalize (Some x) st) = st"
  by (simp add: normalize_def)

text \<open>
  C9. Every call of \<open>null_logger\<close> returns the pointer to the one static instance,
  whatever the state it is called in: two calls return the same pointer, also when the
  second follows the first.
\<close>

theorem null_logger_same_instance:
  "fst (null_logger st) = fst (null_logger st')
   \<and> fst (null_logger (snd (null_logger st))) = fst (null_logger st)
   \<and> snd (null_logger (snd (null_logger st))) = snd (null_logger st)
   \<and> fst (null_logger st) = Some Instance"
  by (simp add: null_logger_def)

text \<open>
  C10. \<open>normalize\<close> is idempotent: applied to its own result, in the state the first
  call left or in any other, it returns the same pointer as the first call, and the second
  call changes nothing.
\<close>

theorem normalize_idempotent:
  "fst (normalize (fst (normalize p st)) st') = fst (normalize p st)
   \<and> normalize (fst (normalize p st)) (snd (normalize p st)) = normalize p st"
  by (simp add: normalize_def null_logger_def)

section \<open>NullLogger is inert\<close>

text \<open>
  C5. After every sequence of calls on a \<open>NullLogger\<close>, \<open>get_log_level\<close> returns
  \<open>Info\<close>; and the level passed to \<open>set_log_level\<close> makes no difference to anything
  that follows: the results of all later calls and the final state are the same for any
  two levels.
\<close>

theorem NullLogger_level_always_Info:
  "get_log_level NullLogger (snd (run NullLogger cs w)) = (Inr Info, snd (run NullLogger cs w))
   \<and> (\<exists>rs. run NullLogger (cs @ [Get_log_level]) w = (Inr (rs @ [Level Info]), w))
   \<and> run NullLogger (Set_log_level level # cs) w = run NullLogger (Set_log_level level' # cs) w
   \<and> run NullLogger (cs @ Set_log_level level # Get_log_level # cs') w
       = run NullLogger (cs @ Set_log_level level' # Get_log_level # cs') w"
  unfolding run_NullLogger
  by (simp add: NullLogger_slots NullLogger_get_log_level_def)

text \<open>
  C6. Every sequence of calls of the seven member functions on a \<open>NullLogger\<close>, with any
  arguments, runs to its end without an exception, every call returning, and leaves the
  state outside the logger exactly as it was.
\<close>

theorem NullLogger_no_effect_no_failure:
  "snd (run NullLogger cs w) = w
   \<and> (\<exists>rs. fst (run NullLogger cs w) = Inr rs \<and> length rs = length cs)
   \<and> snd (call NullLogger c w) = w
   \<and> (\<exists>r. fst (call NullLogger c w) = Inr r)"
  by (simp add: run_NullLogger call_NullLogger)

text \<open>
  C7. In a class that does not override \<open>is_active\<close> the call returns true, and the
  override of \<open>NullLogger\<close> returns false; neither changes the state.
\<close>

theorem is_active_default_and_override:
  "is_active (derived get_override set_override log_override None) w = (Inr True, w)
   \<and> is_active NullLogger w = (Inr False, w)"
  by (simp add: derived_def SimpleLogger_is_active_def NullLogger_slots NullLogger_is_active_def)

end
